theory Spec2Isabelle
  imports Main
begin

section \<open>Python values, exceptions and observable effects\<close>

text \<open>
  The program is \<^verbatim>\<open>src/lecker/cli.py\<close>: two command handlers, \<^verbatim>\<open>fetch\<close> and
  \<^verbatim>\<open>setup\<close>, around an external crawler and two external executables. What lies outside
  the file (the crawler, \<^verbatim>\<open>shutil.which\<close>, \<^verbatim>\<open>subprocess.run\<close>) is a parameter of the
  model; what the file itself does (normalising the URL, redirecting the streams, testing
  the result, selecting exceptions by class, printing, leaving with a status) is defined
  here, branch by branch.
\<close>

text \<open>
  The value of \<^verbatim>\<open>result.markdown\<close>, annotated
  \<^verbatim>\<open>Optional[str | MarkdownGenerationResult]\<close> in the source. The object of the third
  kind carries its text.
\<close>

datatype pyval = PyNone | PyStr string | MarkdownGenerationResult string

text \<open>
  Python's truth test, as \<^verbatim>\<open>if result := ...\<close> applies it: \<^verbatim>\<open>None\<close> and the empty
  string are false; an object that defines neither \<^verbatim>\<open>__bool__\<close> nor \<^verbatim>\<open>__len__\<close> is
  true.
\<close>

fun truthy :: "pyval \<Rightarrow> bool" where
  "truthy PyNone = False"
| "truthy (PyStr s) = (s \<noteq> [])"
| "truthy (MarkdownGenerationResult _) = True"

text \<open>
  Exceptions, by the classes that the \<^verbatim>\<open>except\<close> clauses of the source tell apart.
  \<open>CalledProcessError msg err\<close> carries \<^verbatim>\<open>str(e)\<close> and \<^verbatim>\<open>e.stderr\<close>;
  \<open>OtherException\<close> is any other instance of \<^verbatim>\<open>Exception\<close> (a \<^verbatim>\<open>PermissionError\<close>, a
  \<^verbatim>\<open>TimeoutError\<close>); \<open>NonException\<close> is a \<^verbatim>\<open>BaseException\<close> outside \<^verbatim>\<open>Exception\<close>
  (\<^verbatim>\<open>KeyboardInterrupt\<close>, \<^verbatim>\<open>asyncio.CancelledError\<close>), which \<^verbatim>\<open>except Exception\<close> lets
  through.
\<close>

datatype exn =
    CalledProcessError string string
  | FileNotFoundError string
  | OtherException string
  | NonException string

fun is_Exception :: "exn \<Rightarrow> bool" where
  "is_Exception (NonException _) = False"
| "is_Exception _ = True"

fun str :: "exn \<Rightarrow> string" where
  "str (CalledProcessError msg err) = msg"
| "str (FileNotFoundError msg) = msg"
| "str (OtherException msg) = msg"
| "str (NonException msg) = msg"

datatype stream = Stdout | Stderr

text \<open>The keyword arguments given to \<^verbatim>\<open>AsyncWebCrawler\<close>.\<close>

record crawler_args =
  arg_headless :: bool
  arg_verbose :: bool
  arg_sleep_on_close :: bool

text \<open>
  What a run of a command does to the world, in order: \<open>Arun\<close> is the call of the crawler
  with its arguments and the URL, \<open>Write\<close> a write of the crawler that reaches the
  process's real stream, \<open>Print\<close> a call of \<^verbatim>\<open>print\<close> by this program with the object
  printed and the stream it goes to, \<open>Subprocess_run\<close> a call of \<^verbatim>\<open>subprocess.run\<close> with
  its argument vector. The \<^verbatim>\<open>print\<close> of the source is the one of the \<^verbatim>\<open>rich\<close> library;
  the event records the call and its argument, not the characters that the library
  renders from it.
\<close>

datatype event =
    Arun crawler_args string
  | Write stream string
  | Print stream pyval
  | Subprocess_run "string list"

text \<open>
  How a command handler ends: it returns, it leaves through \<^verbatim>\<open>sys.exit\<close>, or an exception
  that no clause selects propagates out of it.
\<close>

datatype ending = Returns | Exits int | Raises exn

record run =
  trace :: "event list"
  ending :: ending

text \<open>
  The status of the process. A handler that returns gives 0 (the command framework leaves
  with 0 after the handler); \<^verbatim>\<open>sys.exit(n)\<close> gives \<open>n\<close>; an \<^verbatim>\<open>Exception\<close> that nobody
  catches ends the interpreter with a traceback and status 1. For the other
  \<^verbatim>\<open>BaseException\<close>s the status is not decided by this program.
\<close>

fun exit_code :: "ending \<Rightarrow> int option" where
  "exit_code Returns = Some 0"
| "exit_code (Exits n) = Some n"
| "exit_code (Raises e) = (if is_Exception e then Some 1 else None)"

section \<open>The crawl\<close>

text \<open>
  The crawling delegate: everything from constructing \<^verbatim>\<open>AsyncWebCrawler\<close> and entering it
  to \<^verbatim>\<open>arun\<close>, reading \<^verbatim>\<open>.markdown\<close> and leaving the context manager, run by
  \<^verbatim>\<open>asyncio.run\<close>. It is given its arguments and the URL; it writes to \<^verbatim>\<open>sys.stdout\<close> and
  \<^verbatim>\<open>sys.stderr\<close> (the list, in order) and ends by raising or by returning a value.
\<close>

type_synonym delegate = "crawler_args \<Rightarrow> string \<Rightarrow> (stream \<times> string) list \<times> (exn + pyval)"

text \<open>The text that a \<^verbatim>\<open>StringIO\<close> put in place of a stream holds after the writes.\<close>

definition captured :: "stream \<Rightarrow> (stream \<times> string) list \<Rightarrow> string" where
  "captured s ws = concat (map snd (filter (\<lambda>w. fst w = s) ws))"

text \<open>
  \<open>events\<close> is what reaches the outside, \<open>buffers\<close> the final contents of the two
  \<^verbatim>\<open>StringIO\<close> objects of the quiet branch (local to the function, so lost when it ends),
  \<open>returned\<close> the value returned or the exception raised.
\<close>

record crawl =
  events :: "event list"
  buffers :: "(string \<times> string) option"
  returned :: "exn + pyval"

definition crawl_webpage :: "delegate \<Rightarrow> string \<Rightarrow> bool \<Rightarrow> crawl" where
  "crawl_webpage d url verbose =
     (if verbose then
        (let args = \<lparr>arg_headless = True, arg_verbose = True, arg_sleep_on_close = False\<rparr>;
             (ws, r) = d args url
         in \<lparr>events = Arun args url # map (\<lambda>(s, t). Write s t) ws,
             buffers = None,
             returned = r\<rparr>)
      else
        (let stdout = [];
             stderr = [];
             args = \<lparr>arg_headless = True, arg_verbose = False, arg_sleep_on_close = False\<rparr>;
             (ws, r) = d args url
         in \<lparr>events = [Arun args url],
             buffers = Some (stdout @ captured Stdout ws, stderr @ captured Stderr ws),
             returned = r\<rparr>))"

section \<open>The fetch command\<close>

text \<open>\<^verbatim>\<open>str.startswith\<close> with a tuple of prefixes: true when one of them is a prefix.\<close>

definition startswith :: "string \<Rightarrow> string list \<Rightarrow> bool" where
  "startswith s prefixes = list_ex (\<lambda>p. take (length p) s = p) prefixes"

definition fetch :: "delegate \<Rightarrow> string \<Rightarrow> bool \<Rightarrow> run" where
  "fetch d url0 verbose =
     (let url = (if \<not> startswith url0 [''http://'', ''https://'']
                 then ''https://'' @ url0 else url0);
          c = crawl_webpage d url verbose
      in case returned c of
           Inr result \<Rightarrow>
             if truthy result
             then \<lparr>trace = events c @ [Print Stdout result], ending = Returns\<rparr>
             else \<lparr>trace = events c @ [Print Stdout (PyStr ''sad'')], ending = Returns\<rparr>
         | Inl e \<Rightarrow>
             if is_Exception e
             then \<lparr>trace = events c @
                      [Print Stderr (PyStr (''Error fetching '' @ url @ '': '' @ str e))],
                   ending = Exits 1\<rparr>
             else \<lparr>trace = events c, ending = Raises e\<rparr>)"

section \<open>The setup command\<close>

datatype completed_process = CompletedProcess (cp_stdout: string) (cp_stderr: string)

text \<open>
  \<^verbatim>\<open>shutil.which\<close> (a path or \<^verbatim>\<open>None\<close>) and \<^verbatim>\<open>subprocess.run\<close> with \<^verbatim>\<open>check=True\<close>,
  \<^verbatim>\<open>capture_output=True\<close>, \<^verbatim>\<open>text=True\<close> (a completed process of status 0, or an
  exception). Each argument vector is run at most once, so a function of the vector
  describes any environment.
\<close>

type_synonym which = "string \<Rightarrow> string option"
type_synonym runner = "string list \<Rightarrow> exn + completed_process"

definition chrome_paths :: "string list" where
  "chrome_paths =
     [''chrome'',
      ''google-chrome'',
      ''chromium'',
      ''chromium-browser'',
      ''/Applications/Google Chrome.app/Contents/MacOS/Google Chrome'',
      ''/Applications/Chromium.app/Contents/MacOS/Chromium'']"

text \<open>\<^verbatim>\<open>any(shutil.which(path) for path in chrome_paths)\<close>, with Python's truth test.\<close>

definition chrome_found :: "which \<Rightarrow> bool" where
  "chrome_found which =
     list_ex (\<lambda>path. case which path of None \<Rightarrow> False | Some p \<Rightarrow> p \<noteq> []) chrome_paths"

text \<open>The body of the \<^verbatim>\<open>try\<close>: the events up to its end or up to the exception raised.\<close>

definition setup_try :: "which \<Rightarrow> runner \<Rightarrow> event list \<times> exn option" where
  "setup_try which subprocess_run =
     (let (t, x) =
            (if \<not> chrome_found which then
               (case subprocess_run [''playwright'', ''install'', ''chrome''] of
                  Inl e \<Rightarrow>
                    ([Print Stdout (PyStr ''Chrome not found. Installing Chrome via Playwright...''),
                      Subprocess_run [''playwright'', ''install'', ''chrome'']], Some e)
                | Inr _ \<Rightarrow>
                    ([Print Stdout (PyStr ''Chrome not found. Installing Chrome via Playwright...''),
                      Subprocess_run [''playwright'', ''install'', ''chrome''],
                      Print Stdout (PyStr ''Chrome installation completed!'')], None))
             else ([], None))
      in case x of
           Some e \<Rightarrow> (t, Some e)
         | None \<Rightarrow>
             (case subprocess_run [''crawl4ai-setup''] of
                Inl e \<Rightarrow> (t @ [Subprocess_run [''crawl4ai-setup'']], Some e)
              | Inr result \<Rightarrow>
                  (t @ [Subprocess_run [''crawl4ai-setup''],
                        Print Stdout (PyStr ''Setup completed successfully!''),
                        Print Stdout (PyStr (cp_stdout result))], None)))"

definition setup_command :: "which \<Rightarrow> runner \<Rightarrow> run" where
  "setup_command which subprocess_run =
     (case setup_try which subprocess_run of
        (t, None) \<Rightarrow> \<lparr>trace = t, ending = Returns\<rparr>
      | (t, Some (CalledProcessError msg err)) \<Rightarrow>
          \<lparr>trace = t @
             [Print Stderr (PyStr ''Error: Setup failed!''),
              Print Stderr (PyStr (CHR 0x0A # ''Error details:'')),
              Print Stderr (PyStr err),
              Print Stderr (PyStr (CHR 0x0A # ''Possible solutions:'')),
              Print Stderr (PyStr ''1. Ensure crawl4ai is properly installed in your environment''),
              Print Stderr (PyStr ''2. Try running 'poetry install' again''),
              Print Stderr (PyStr ''3. Check if you have proper permissions to install dependencies'')],
           ending = Exits 1\<rparr>
      | (t, Some (FileNotFoundError msg)) \<Rightarrow>
          \<lparr>trace = t @
             [Print Stderr (PyStr ''Error: crawl4ai-setup command not found!''),
              Print Stderr (PyStr (CHR 0x0A # ''Possible solutions:'')),
              Print Stderr (PyStr ''1. Make sure you're in the poetry environment (run 'poetry shell')''),
              Print Stderr (PyStr (''2. Try reinstalling dependencies with 'poetry install'' @ [CHR 0x27]))],
           ending = Exits 1\<rparr>
      | (t, Some e) \<Rightarrow> \<lparr>trace = t, ending = Raises e\<rparr>)"

section \<open>Observations on a trace\<close>

text \<open>Whether an event puts text on the given real stream of the process.\<close>

fun goes_to :: "stream \<Rightarrow> event \<Rightarrow> bool" where
  "goes_to s (Write s' _) = (s = s')"
| "goes_to s (Print s' _) = (s = s')"
| "goes_to s _ = False"

text \<open>The argument vectors given to \<^verbatim>\<open>subprocess.run\<close>, in the order of the calls.\<close>

fun invocations :: "event list \<Rightarrow> string list list" where
  "invocations [] = []"
| "invocations (Subprocess_run argv # es) = argv # invocations es"
| "invocations (_ # es) = invocations es"

text \<open>The calls of the crawler, in order: the arguments and the URL of each.\<close>

fun crawled :: "event list \<Rightarrow> (crawler_args \<times> string) list" where
  "crawled [] = []"
| "crawled (Arun a u # es) = (a, u) # crawled es"
| "crawled (_ # es) = crawled es"

text \<open>
  The specification's wording "the string begins with a scheme", read as in RFC 3986: a
  non-empty run of letters, digits, plus, minus and dot, followed by \<^verbatim>\<open>://\<close>. This
  predicate is not part of the program; it is what the program's own test is compared with.
\<close>

definition scheme_char :: "char \<Rightarrow> bool" where
  "scheme_char c =
     (let n = (of_char c :: nat)
      in (65 \<le> n \<and> n \<le> 90) \<or> (97 \<le> n \<and> n \<le> 122) \<or> (48 \<le> n \<and> n \<le> 57) \<or>
         c = CHR ''+'' \<or> c = CHR ''-'' \<or> c = CHR ''.'')"

definition spec_has_scheme :: "string \<Rightarrow> bool" where
  "spec_has_scheme url =
     (let name = takeWhile scheme_char url;
          rest = dropWhile scheme_char url
      in name \<noteq> [] \<and> take 3 rest = ''://'')"

section \<open>Concrete environments\<close>

text \<open>
  Delegates and environments on which the commands are evaluated: a crawler that writes
  nothing, one that logs to both streams, a machine without a browser and one with
  Chromium on the search path, and a \<^verbatim>\<open>subprocess.run\<close> fixed by the outcomes of the
  installer and of the one-time setup executable.
\<close>

definition silent_delegate :: "exn + pyval \<Rightarrow> delegate" where
  "silent_delegate r = (\<lambda>args url. ([], r))"

definition noisy_delegate :: "exn + pyval \<Rightarrow> delegate" where
  "noisy_delegate r =
     (\<lambda>args url. ([(Stdout, ''[FETCH] ''), (Stderr, ''warning''), (Stdout, url)], r))"

definition no_browser :: which where
  "no_browser = (\<lambda>path. None)"

definition chromium_installed :: which where
  "chromium_installed =
     (\<lambda>path. if path = ''chromium'' then Some ''/usr/bin/chromium'' else None)"

definition runner_of :: "exn + completed_process \<Rightarrow> exn + completed_process \<Rightarrow> runner" where
  "runner_of installer one_time =
     (\<lambda>argv. if argv = [''playwright'', ''install'', ''chrome''] then installer else one_time)"

section \<open>The shape of a run of fetch\<close>

lemma take_is_prefix: "(take (length p) s = p) = (\<exists>r. s = p @ r)"
  by (metis append_eq_conv_conj append_take_drop_id)

text \<open>The one call of the crawler that a run of fetch makes.\<close>

lemma fetch_call:
  assumes "Arun a u \<in> set (trace (fetch d url v))"
  shows "a = \<lparr>arg_headless = True, arg_verbose = v, arg_sleep_on_close = False\<rparr> \<and>
         u = (if startswith url [''http://'', ''https://''] then url else ''https://'' @ url)"
  using assms
  unfolding fetch_def crawl_webpage_def Let_def
  by (auto split: sum.splits prod.splits if_splits)

text \<open>A run of fetch, in terms of what that call does.\<close>

lemma fetch_eq:
  assumes call: "Arun a u \<in> set (trace (fetch d url v))" and res: "d a u = (ws, r)"
  shows "fetch d url v =
    \<lparr>trace = Arun a u # (if v then map (\<lambda>(s, t). Write s t) ws else []) @
       (case r of
          Inr x \<Rightarrow> [Print Stdout (if truthy x then x else PyStr ''sad'')]
        | Inl e \<Rightarrow> if is_Exception e
                   then [Print Stderr (PyStr (''Error fetching '' @ u @ '': '' @ str e))]
                   else []),
     ending = (case r of Inr x \<Rightarrow> Returns | Inl e \<Rightarrow> if is_Exception e then Exits 1 else Raises e)\<rparr>"
proof -
  define u' where
    "u' = (if startswith url [''http://'', ''https://''] then url else ''https://'' @ url)"
  from fetch_call [OF call]
  have a: "a = \<lparr>arg_headless = True, arg_verbose = v, arg_sleep_on_close = False\<rparr>"
    and u: "u = u'"
    by (simp_all add: u'_def)
  have f: "fetch d url v =
      (let c = crawl_webpage d u' v
       in case returned c of
           Inr result \<Rightarrow>
             if truthy result
             then \<lparr>trace = events c @ [Print Stdout result], ending = Returns\<rparr>
             else \<lparr>trace = events c @ [Print Stdout (PyStr ''sad'')], ending = Returns\<rparr>
         | Inl e \<Rightarrow>
             if is_Exception e
             then \<lparr>trace = events c @
                      [Print Stderr (PyStr (''Error fetching '' @ u' @ '': '' @ str e))],
                   ending = Exits 1\<rparr>
             else \<lparr>trace = events c, ending = Raises e\<rparr>)"
    unfolding fetch_def u'_def by (simp add: Let_def)
  from res
  have res': "d \<lparr>arg_headless = True, arg_verbose = v, arg_sleep_on_close = False\<rparr> u' = (ws, r)"
    by (simp add: a u)
  show ?thesis
  proof (cases v)
    case True
    with res' show ?thesis
      unfolding f crawl_webpage_def by (cases r) (simp_all add: Let_def a u)
  next
    case False
    with res' show ?thesis
      unfolding f crawl_webpage_def by (cases r) (simp_all add: Let_def a u)
  qed
qed

section \<open>Exceptions of the crawler in fetch\<close>




section \<open>The URL given to the crawler\<close>

lemma crawled_append: "crawled (xs @ ys) = crawled xs @ crawled ys"
  by (induction xs rule: crawled.induct) simp_all

lemma crawled_writes: "crawled (map (\<lambda>(s, t). Write s t) ws) = []"
  by (induction ws) auto

lemma fetch_crawled:
  "crawled (trace (fetch d url verbose)) =
     [(\<lparr>arg_headless = True, arg_verbose = verbose, arg_sleep_on_close = False\<rparr>,
       if startswith url [''http://'', ''https://''] then url else ''https://'' @ url)]"
  unfolding fetch_def crawl_webpage_def Let_def
  by (cases verbose) (auto simp: crawled_append crawled_writes split: sum.splits prod.splits)

lemma startswith_http:
  "startswith url [''http://'', ''https://''] =
     ((\<exists>rest. url = ''http://'' @ rest) \<or> (\<exists>rest. url = ''https://'' @ rest))"
  using take_is_prefix [of "''http://''" url] take_is_prefix [of "''https://''" url]
  by (simp add: startswith_def)

text \<open>
  Claim C2, as amended. For every input URL string, fetch calls the crawler exactly once;
  if the string does not begin with \<^verbatim>\<open>http://\<close> or \<^verbatim>\<open>https://\<close> (compared as written,
  case and all), the URL passed is the input prefixed with \<^verbatim>\<open>https://\<close>; if it begins with
  one of the two, it is passed unchanged.
\<close>

theorem fetch_url_passed:
  "(\<not> ((\<exists>rest. url = ''http://'' @ rest) \<or> (\<exists>rest. url = ''https://'' @ rest)) \<longrightarrow>
      crawled (trace (fetch d url verbose)) =
        [(\<lparr>arg_headless = True, arg_verbose = verbose, arg_sleep_on_close = False\<rparr>, ''https://'' @ url)])
   \<and> (((\<exists>rest. url = ''http://'' @ rest) \<or> (\<exists>rest. url = ''https://'' @ rest)) \<longrightarrow>
      crawled (trace (fetch d url verbose)) =
        [(\<lparr>arg_headless = True, arg_verbose = verbose, arg_sleep_on_close = False\<rparr>, url)])"
  unfolding fetch_crawled startswith_http by (simp del: append.simps)

text \<open>
  The theorem at \<^verbatim>\<open>example.com\<close>, which gets the prefix, and at
  \<^verbatim>\<open>http://example.com\<close>, which is passed as it is.
\<close>

theorem fetch_url_passed_witness:
  "\<not> ((\<exists>rest. ''example.com'' = ''http://'' @ rest) \<or> (\<exists>rest. ''example.com'' = ''https://'' @ rest))
   \<and> crawled (trace (fetch (silent_delegate (Inr (PyStr ''# Example''))) ''example.com'' False)) =
        [(\<lparr>arg_headless = True, arg_verbose = False, arg_sleep_on_close = False\<rparr>, ''https://example.com'')]
   \<and> ((\<exists>rest. ''http://example.com'' = ''http://'' @ rest) \<or> (\<exists>rest. ''http://example.com'' = ''https://'' @ rest))
   \<and> crawled (trace (fetch (silent_delegate (Inr (PyStr ''# Example''))) ''http://example.com'' False)) =
        [(\<lparr>arg_headless = True, arg_verbose = False, arg_sleep_on_close = False\<rparr>, ''http://example.com'')]"
  using fetch_url_passed [of "''example.com''" "silent_delegate (Inr (PyStr ''# Example''))" False]
    fetch_url_passed [of "''http://example.com''" "silent_delegate (Inr (PyStr ''# Example''))" False]
  by simp

text \<open>
  Claim C2 as stated fails: \<^verbatim>\<open>ftp://example.com\<close> begins with a scheme, and the crawler
  is given \<^verbatim>\<open>https://ftp://example.com\<close>, not the input. The source tests for the two
  prefixes only ("Ensure URL has http:// or https:// prefix").
\<close>

theorem fetch_other_scheme_counterexample:
  "spec_has_scheme ''ftp://example.com''
   \<and> crawled (trace (fetch (silent_delegate (Inr (PyStr ''# Example''))) ''ftp://example.com'' False)) =
        [(\<lparr>arg_headless = True, arg_verbose = False, arg_sleep_on_close = False\<rparr>, ''https://ftp://example.com'')]
   \<and> ''https://ftp://example.com'' \<noteq> ''ftp://example.com''"
  by (simp add: spec_has_scheme_def scheme_char_def fetch_def crawl_webpage_def startswith_def
      silent_delegate_def Let_def)

section \<open>The result of the crawl in fetch\<close>

text \<open>
  Claim C5. For every URL, when the crawling delegate completes without raising and its
  value is no usable content (\<^verbatim>\<open>None\<close>, or any value that Python's truth test rejects),
  the last thing fetch does is print the sentinel message \<^verbatim>\<open>sad\<close>.
\<close>

theorem fetch_no_content_sentinel:
  assumes "Arun a u \<in> set (trace (fetch d url verbose))"
    and "d a u = (ws, Inr result)"
    and "\<not> truthy result"
  shows "last (trace (fetch d url verbose)) = Print Stdout (PyStr ''sad'')
         \<and> Print Stdout (PyStr ''sad'') \<in> set (trace (fetch d url verbose))"
  using fetch_eq [OF assms(1) assms(2)] assms(3) by simp

text \<open>
  The theorem at a crawler that returns \<^verbatim>\<open>None\<close>.
\<close>

theorem fetch_no_content_sentinel_witness:
  "Arun \<lparr>arg_headless = True, arg_verbose = False, arg_sleep_on_close = False\<rparr> ''https://example.com''
     \<in> set (trace (fetch (silent_delegate (Inr PyNone)) ''example.com'' False))
   \<and> \<not> truthy PyNone
   \<and> last (trace (fetch (silent_delegate (Inr PyNone)) ''example.com'' False)) = Print Stdout (PyStr ''sad'')"
proof -
  have call: "Arun \<lparr>arg_headless = True, arg_verbose = False, arg_sleep_on_close = False\<rparr> ''https://example.com''
     \<in> set (trace (fetch (silent_delegate (Inr PyNone)) ''example.com'' False))"
    by (simp add: fetch_def crawl_webpage_def startswith_def silent_delegate_def Let_def)
  have res: "silent_delegate (Inr PyNone)
       \<lparr>arg_headless = True, arg_verbose = False, arg_sleep_on_close = False\<rparr> ''https://example.com''
     = ([], Inr PyNone)"
    by (simp add: silent_delegate_def)
  have falsy: "\<not> truthy PyNone" by simp
  show ?thesis
    using fetch_no_content_sentinel [OF call res falsy] call by simp
qed




text \<open>
  Claim C8. For every URL, when the crawling delegate returns \<^verbatim>\<open>None\<close> or the empty
  string without raising, fetch prints the sentinel to standard output, returns, and the
  process exits with code 0. The run is given without reference to which of the two
  values was returned: the empty string is treated as \<^verbatim>\<open>None\<close> is.
\<close>

theorem fetch_None_or_empty:
  assumes "Arun a u \<in> set (trace (fetch d url verbose))"
    and "d a u = (ws, Inr result)"
    and "result = PyNone \<or> result = PyStr ''''"
  shows "trace (fetch d url verbose) =
           Arun a u # (if verbose then map (\<lambda>(s, t). Write s t) ws else []) @
           [Print Stdout (PyStr ''sad'')]
         \<and> ending (fetch d url verbose) = Returns
         \<and> exit_code (ending (fetch d url verbose)) = Some 0"
  using fetch_eq [OF assms(1) assms(2)] assms(3) by auto

text \<open>
  The theorem at a crawler that returns the empty string, in verbose mode.
\<close>

theorem fetch_None_or_empty_witness:
  "Arun \<lparr>arg_headless = True, arg_verbose = True, arg_sleep_on_close = False\<rparr> ''https://example.com''
     \<in> set (trace (fetch (silent_delegate (Inr (PyStr ''''))) ''https://example.com'' True))
   \<and> (PyStr '''' = PyNone \<or> PyStr '''' = PyStr '''')
   \<and> trace (fetch (silent_delegate (Inr (PyStr ''''))) ''https://example.com'' True) =
       [Arun \<lparr>arg_headless = True, arg_verbose = True, arg_sleep_on_close = False\<rparr> ''https://example.com'',
        Print Stdout (PyStr ''sad'')]
   \<and> exit_code (ending (fetch (silent_delegate (Inr (PyStr ''''))) ''https://example.com'' True)) = Some 0"
proof -
  have call: "Arun \<lparr>arg_headless = True, arg_verbose = True, arg_sleep_on_close = False\<rparr> ''https://example.com''
     \<in> set (trace (fetch (silent_delegate (Inr (PyStr ''''))) ''https://example.com'' True))"
    by (simp add: fetch_def crawl_webpage_def startswith_def silent_delegate_def Let_def)
  have res: "silent_delegate (Inr (PyStr ''''))
       \<lparr>arg_headless = True, arg_verbose = True, arg_sleep_on_close = False\<rparr> ''https://example.com''
     = ([], Inr (PyStr ''''))"
    by (simp add: silent_delegate_def)
  have e: "PyStr '''' = PyNone \<or> PyStr '''' = PyStr ''''" by simp
  show ?thesis
    using fetch_None_or_empty [OF call res e] call by simp
qed

section \<open>The verbose flag\<close>

text \<open>
  Claim C9. For every URL and every crawling delegate whose outcome (the value returned
  or the exception raised) does not depend on the \<^verbatim>\<open>verbose\<close> argument it is constructed
  with, \<^verbatim>\<open>crawl_webpage\<close> returns the same with the flag true and with the flag false.
  What the delegate writes may differ between the two.
\<close>

theorem crawl_webpage_verbose_independent:
  assumes "snd (d \<lparr>arg_headless = True, arg_verbose = True, arg_sleep_on_close = False\<rparr> url) =
           snd (d \<lparr>arg_headless = True, arg_verbose = False, arg_sleep_on_close = False\<rparr> url)"
  shows "returned (crawl_webpage d url True) = returned (crawl_webpage d url False)"
  using assms unfolding crawl_webpage_def Let_def
  by (simp add: split_beta)

text \<open>
  The theorem at a crawler that logs and returns \<^verbatim>\<open># Example\<close>.
\<close>

theorem crawl_webpage_verbose_independent_witness:
  "snd (noisy_delegate (Inr (PyStr ''# Example''))
          \<lparr>arg_headless = True, arg_verbose = True, arg_sleep_on_close = False\<rparr> ''https://example.com'') =
   snd (noisy_delegate (Inr (PyStr ''# Example''))
          \<lparr>arg_headless = True, arg_verbose = False, arg_sleep_on_close = False\<rparr> ''https://example.com'')
   \<and> returned (crawl_webpage (noisy_delegate (Inr (PyStr ''# Example''))) ''https://example.com'' True) =
       returned (crawl_webpage (noisy_delegate (Inr (PyStr ''# Example''))) ''https://example.com'' False)
   \<and> returned (crawl_webpage (noisy_delegate (Inr (PyStr ''# Example''))) ''https://example.com'' False) =
       Inr (PyStr ''# Example'')"
proof -
  have same: "snd (noisy_delegate (Inr (PyStr ''# Example''))
          \<lparr>arg_headless = True, arg_verbose = True, arg_sleep_on_close = False\<rparr> ''https://example.com'') =
   snd (noisy_delegate (Inr (PyStr ''# Example''))
          \<lparr>arg_headless = True, arg_verbose = False, arg_sleep_on_close = False\<rparr> ''https://example.com'')"
    by (simp add: noisy_delegate_def)
  have quiet: "returned (crawl_webpage (noisy_delegate (Inr (PyStr ''# Example''))) ''https://example.com'' False) =
       Inr (PyStr ''# Example'')"
    by (simp add: crawl_webpage_def noisy_delegate_def Let_def)
  show ?thesis
    using crawl_webpage_verbose_independent
        [of "noisy_delegate (Inr (PyStr ''# Example''))" "''https://example.com''"] same quiet
    by simp
qed

text \<open>
  Claim C10. When the verbose flag is false, everything the crawling delegate writes to
  standard output or standard error ends up in the two \<^verbatim>\<open>StringIO\<close> buffers of
  \<^verbatim>\<open>crawl_webpage\<close> and nowhere else: the crawl puts nothing on the real streams, the
  trace of fetch has no write of the delegate, and the real standard output of fetch
  carries exactly the print of the markdown result or of the sentinel (and nothing when
  the delegate raises).
\<close>

theorem quiet_crawl_output_discarded:
  assumes "Arun a u \<in> set (trace (fetch d url False))"
    and "d a u = (ws, r)"
  shows "events (crawl_webpage d u False) = [Arun a u]
         \<and> buffers (crawl_webpage d u False) = Some (captured Stdout ws, captured Stderr ws)
         \<and> (\<forall>s t. Write s t \<notin> set (trace (fetch d url False)))
         \<and> filter (goes_to Stdout) (trace (fetch d url False)) =
             (case r of
                Inr result \<Rightarrow> [Print Stdout (if truthy result then result else PyStr ''sad'')]
              | Inl e \<Rightarrow> [])"
proof -
  from fetch_call [OF assms(1)]
  have a: "a = \<lparr>arg_headless = True, arg_verbose = False, arg_sleep_on_close = False\<rparr>"
    by simp
  have c: "crawl_webpage d u False =
      \<lparr>events = [Arun a u], buffers = Some (captured Stdout ws, captured Stderr ws), returned = r\<rparr>"
    using assms(2) unfolding crawl_webpage_def a by (simp add: Let_def)
  have f: "fetch d url False =
    \<lparr>trace = Arun a u #
       (case r of
          Inr x \<Rightarrow> [Print Stdout (if truthy x then x else PyStr ''sad'')]
        | Inl e \<Rightarrow> if is_Exception e
                   then [Print Stderr (PyStr (''Error fetching '' @ u @ '': '' @ str e))]
                   else []),
     ending = (case r of Inr x \<Rightarrow> Returns | Inl e \<Rightarrow> if is_Exception e then Exits 1 else Raises e)\<rparr>"
    using fetch_eq [OF assms(1) assms(2)] by simp
  show ?thesis
    unfolding c f by (cases r) auto
qed

text \<open>
  The theorem at a crawler that writes to both streams and returns \<^verbatim>\<open># Example\<close>.
\<close>

theorem quiet_crawl_output_discarded_witness:
  "Arun \<lparr>arg_headless = True, arg_verbose = False, arg_sleep_on_close = False\<rparr> ''https://example.com''
     \<in> set (trace (fetch (noisy_delegate (Inr (PyStr ''# Example''))) ''example.com'' False))
   \<and> buffers (crawl_webpage (noisy_delegate (Inr (PyStr ''# Example''))) ''https://example.com'' False) =
       Some (''[FETCH] https://example.com'', ''warning'')
   \<and> filter (goes_to Stdout) (trace (fetch (noisy_delegate (Inr (PyStr ''# Example''))) ''example.com'' False)) =
       [Print Stdout (PyStr ''# Example'')]"
proof -
  have call: "Arun \<lparr>arg_headless = True, arg_verbose = False, arg_sleep_on_close = False\<rparr> ''https://example.com''
     \<in> set (trace (fetch (noisy_delegate (Inr (PyStr ''# Example''))) ''example.com'' False))"
    by (simp add: fetch_def crawl_webpage_def startswith_def noisy_delegate_def Let_def)
  have res: "noisy_delegate (Inr (PyStr ''# Example''))
       \<lparr>arg_headless = True, arg_verbose = False, arg_sleep_on_close = False\<rparr> ''https://example.com''
     = ([(Stdout, ''[FETCH] ''), (Stderr, ''warning''), (Stdout, ''https://example.com'')],
        Inr (PyStr ''# Example''))"
    by (simp add: noisy_delegate_def)
  show ?thesis
    using quiet_crawl_output_discarded [OF call res] call by (simp add: captured_def)
qed

section \<open>The shape of a run of the setup command\<close>

lemma chrome_found_iff:
  "chrome_found which = (\<exists>path \<in> set chrome_paths. \<exists>p. which path = Some p \<and> p \<noteq> [])"
  unfolding chrome_found_def list_ex_iff
  by (auto split: option.splits)

text \<open>
  The body of the \<^verbatim>\<open>try\<close>, path by path: the browser is found; it is not found and the
  installer fails; it is not found and the installer succeeds.
\<close>

lemma setup_try_cases:
  "setup_try which run =
     (if chrome_found which then
        (case run [''crawl4ai-setup''] of
           Inl e \<Rightarrow> ([Subprocess_run [''crawl4ai-setup'']], Some e)
         | Inr result \<Rightarrow>
             ([Subprocess_run [''crawl4ai-setup''],
               Print Stdout (PyStr ''Setup completed successfully!''),
               Print Stdout (PyStr (cp_stdout result))], None))
      else
        (case run [''playwright'', ''install'', ''chrome''] of
           Inl e \<Rightarrow>
             ([Print Stdout (PyStr ''Chrome not found. Installing Chrome via Playwright...''),
               Subprocess_run [''playwright'', ''install'', ''chrome'']], Some e)
         | Inr _ \<Rightarrow>
             (case run [''crawl4ai-setup''] of
                Inl e \<Rightarrow>
                  ([Print Stdout (PyStr ''Chrome not found. Installing Chrome via Playwright...''),
                    Subprocess_run [''playwright'', ''install'', ''chrome''],
                    Print Stdout (PyStr ''Chrome installation completed!''),
                    Subprocess_run [''crawl4ai-setup'']], Some e)
              | Inr result \<Rightarrow>
                  ([Print Stdout (PyStr ''Chrome not found. Installing Chrome via Playwright...''),
                    Subprocess_run [''playwright'', ''install'', ''chrome''],
                    Print Stdout (PyStr ''Chrome installation completed!''),
                    Subprocess_run [''crawl4ai-setup''],
                    Print Stdout (PyStr ''Setup completed successfully!''),
                    Print Stdout (PyStr (cp_stdout result))], None))))"
  unfolding setup_try_def
  by (simp split: sum.splits)

lemma invocations_setup_try:
  "invocations (fst (setup_try which run)) =
     (if chrome_found which then [[''crawl4ai-setup'']]
      else case run [''playwright'', ''install'', ''chrome''] of
             Inl e \<Rightarrow> [[''playwright'', ''install'', ''chrome'']]
           | Inr _ \<Rightarrow> [[''playwright'', ''install'', ''chrome''], [''crawl4ai-setup'']])"
  unfolding setup_try_cases
  by (simp split: sum.splits)

lemma invocations_append: "invocations (xs @ ys) = invocations xs @ invocations ys"
  by (induction xs rule: invocations.induct) simp_all

lemma setup_command_invocations:
  "invocations (trace (setup_command which run)) = invocations (fst (setup_try which run))"
  unfolding setup_command_def
  by (cases "setup_try which run")
     (auto simp: invocations_append split: option.splits exn.splits)




lemma no_browser_not_found: "\<not> chrome_found no_browser"
  by (simp add: chrome_found_def chrome_paths_def no_browser_def)

lemma chromium_installed_found: "chrome_found chromium_installed"
  by (simp add: chrome_found_def chrome_paths_def chromium_installed_def)

section \<open>Exit codes of the setup command\<close>



section \<open>What the setup command invokes\<close>

text \<open>
  Claim C6. The setup command invokes the browser installer if and only if no browser
  binary is found, where found means that \<^verbatim>\<open>shutil.which\<close> gives a path for one of the six
  known names; and in every run where the installer succeeds or is skipped, the one-time
  setup executable is invoked next, as the last invocation of the run.
\<close>

theorem setup_invocations:
  "(([''playwright'', ''install'', ''chrome''] \<in> set (invocations (trace (setup_command which run))))
      = (\<not> chrome_found which))
   \<and> (chrome_found which = (\<exists>path \<in> set chrome_paths. \<exists>p. which path = Some p \<and> p \<noteq> []))
   \<and> (chrome_found which \<or> (\<exists>a. run [''playwright'', ''install'', ''chrome''] = Inr a) \<longrightarrow>
        invocations (trace (setup_command which run)) =
          (if chrome_found which then [] else [[''playwright'', ''install'', ''chrome'']])
          @ [[''crawl4ai-setup'']])"
  unfolding setup_command_invocations invocations_setup_try
  using chrome_found_iff [of which]
  by (auto split: sum.splits)

text \<open>
  The theorem on a machine without a browser where the installer succeeds (two
  invocations, in order) and on a machine with Chromium (the setup executable alone, even
  though the installer would fail there).
\<close>

theorem setup_invocations_witness:
  "\<not> chrome_found no_browser
   \<and> (\<exists>a. runner_of (Inr (CompletedProcess ''installed'' '''')) (Inr (CompletedProcess ''ready'' ''''))
          [''playwright'', ''install'', ''chrome''] = Inr a)
   \<and> invocations (trace (setup_command no_browser
        (runner_of (Inr (CompletedProcess ''installed'' '''')) (Inr (CompletedProcess ''ready'' ''''))))) =
       [[''playwright'', ''install'', ''chrome''], [''crawl4ai-setup'']]
   \<and> chrome_found chromium_installed
   \<and> (\<exists>path \<in> set chrome_paths. \<exists>p. chromium_installed path = Some p \<and> p \<noteq> [])
   \<and> invocations (trace (setup_command chromium_installed
        (runner_of (Inl (FileNotFoundError ''playwright'')) (Inr (CompletedProcess ''ready'' ''''))))) =
       [[''crawl4ai-setup'']]"
  using
    setup_invocations [where run = "runner_of (Inr (CompletedProcess ''installed'' '''')) (Inr (CompletedProcess ''ready'' ''''))"
      and which = no_browser]
    setup_invocations [where run = "runner_of (Inl (FileNotFoundError ''playwright'')) (Inr (CompletedProcess ''ready'' ''''))"
      and which = chromium_installed]
    no_browser_not_found chromium_installed_found
  by (simp add: runner_of_def)

section \<open>Failures at the command boundary\<close>




end
